theory Spec2Isabelle
  imports Main "HOL-Library.Sublist" "HOL-Library.AList" "HOL-Library.Word"
begin

unbundle bit_operations_syntax

section \<open>Python string primitives used by the installer\<close>

text \<open>
  Strings are lists of characters. \<open>str.lower()\<close> is modelled on the ASCII letters, which
  is what platform identifiers, asset names and path names of a release are written in;
  every other character is left as it is.
\<close>

definition lower_char :: "char \<Rightarrow> char" where
  "lower_char c =
     (if (65::nat) \<le> of_char c \<and> of_char c \<le> (90::nat)
      then char_of (of_char c + (32::nat)) else c)"

definition lower :: "string \<Rightarrow> string" where
  "lower s = map lower_char s"

text \<open>\<open>sub in s\<close> on strings: \<open>sub\<close> occurs in \<open>s\<close> as a contiguous run.\<close>

definition str_in :: "string \<Rightarrow> string \<Rightarrow> bool" where
  "str_in sub s = sublist sub s"


definition endswith :: "'a list \<Rightarrow> 'a list \<Rightarrow> bool" where
  "endswith s p = suffix p s"


definition endswith_any :: "'a list \<Rightarrow> 'a list list \<Rightarrow> bool" where
  "endswith_any s ps = list_ex (endswith s) ps"

text \<open>\<open>s.rfind(c)\<close>: the index of the last occurrence of \<open>c\<close>, or \<open>-1\<close>.\<close>

definition rfind :: "string \<Rightarrow> char \<Rightarrow> int" where
  "rfind s c =
     (if c \<in> set s
      then int (length s) - 1 - int (length (takeWhile (\<lambda>x. x \<noteq> c) (rev s)))
      else - 1)"

section \<open>Paths\<close>

text \<open>
  A \<open>pathlib.Path\<close> is the list of its components. \<open>Path.name\<close> is the last component;
  \<open>Path.suffix\<close> is computed from the name as pathlib does it: with \<open>i = name.rfind('.')\<close>
  the suffix is \<open>name[i:]\<close> when \<open>0 < i < len(name) - 1\<close> and the empty string otherwise,
  so a name that only starts with a dot has no suffix (this is the rule of CPython 3.8 to
  3.13). \<open>str\<close> of an absolute path joins the components with slashes.
\<close>

type_synonym path = "string list"

definition path_name :: "path \<Rightarrow> string" where
  "path_name p = (if p = [] then [] else last p)"

definition path_suffix :: "string \<Rightarrow> string" where
  "path_suffix nm =
     (let i = rfind nm (CHR ''.'')
      in if 0 < i \<and> i < int (length nm) - 1 then drop (nat i) nm else [])"



section \<open>Errors and endings of a run\<close>

text \<open>
  A raised exception is a value of \<open>error\<close>. A run of the script ends when \<open>main\<close>
  returns (the interpreter then exits with status 0) or at a \<open>sys.exit\<close>.
\<close>

datatype error =
    Exception string
  | FileNotFoundError
  | NotADirectoryError
  | FileExistsError
  | ShutilError

datatype ending = Return | SysExit int

fun exit_status :: "ending \<Rightarrow> int" where
  "exit_status Return = 0"
| "exit_status (SysExit n) = n"

section \<open>Platform resolver\<close>

text \<open>
  \<open>get_platform_asset_pattern\<close> reads \<open>platform.system()\<close> and \<open>platform.machine()\<close>;
  here they are the two arguments. The result is the returned tag together with the lines
  printed on the way.
\<close>

definition patterns :: "(string \<times> (string \<times> string) list) list" where
  "patterns =
     [(''linux'',   [(''x86_64'', ''x86-linux''), (''amd64'', ''x86-linux'')]),
      (''darwin'',  [(''x86_64'', ''x86-macos''), (''amd64'', ''x86-macos''),
                     (''arm64'', ''arm64-macos'')]),
      (''windows'', [(''x86_64'', ''x86-win''), (''amd64'', ''x86-win'')])]"

definition unknown_platform_warning :: "string \<Rightarrow> string \<Rightarrow> string" where
  "unknown_platform_warning system machine =
     ''Warning: Unknown platform '' @ system @ ''-'' @ machine"

definition get_platform_asset_pattern :: "string \<Rightarrow> string \<Rightarrow> string option \<times> string list" where
  "get_platform_asset_pattern platform_system platform_machine =
     (let system = lower platform_system;
          machine = lower platform_machine
      in case map_of patterns system of
           None \<Rightarrow> (None, [unknown_platform_warning system machine])
         | Some archs \<Rightarrow>
             (case map_of archs machine of
                None \<Rightarrow> (None, [unknown_platform_warning system machine])
              | Some tag \<Rightarrow> (Some tag, [])))"



section \<open>Asset selector\<close>

record asset =
  name :: string
  size :: int
  browser_download_url :: string

text \<open>
  The loop of \<open>find_asset_for_platform\<close>: the first asset, in list order, whose
  lower-cased name contains the pattern as it was passed in.
\<close>

fun first_asset_containing :: "string \<Rightarrow> asset list \<Rightarrow> asset option" where
  "first_asset_containing platform_pattern [] = None"
| "first_asset_containing platform_pattern (a # assets) =
     (if str_in platform_pattern (lower (name a)) then Some a
      else first_asset_containing platform_pattern assets)"

text \<open>
  \<open>platform_pattern\<close> is \<open>None\<close> or a string; \<open>not platform_pattern\<close> holds for \<open>None\<close>
  and for the empty string.
\<close>

definition truthy :: "string option \<Rightarrow> bool" where
  "truthy v = (case v of None \<Rightarrow> False | Some s \<Rightarrow> s \<noteq> [])"

definition find_asset_for_platform :: "asset list \<Rightarrow> string option \<Rightarrow> asset option" where
  "find_asset_for_platform assets platform_pattern =
     (case platform_pattern of
        None \<Rightarrow> None
      | Some p \<Rightarrow> if p = [] then None else first_asset_containing p assets)"

text \<open>The spec's matching relation: containment after lower-casing both sides.\<close>

definition contains_ignoring_case :: "string \<Rightarrow> string \<Rightarrow> bool" where
  "contains_ignoring_case tag nm = str_in (lower tag) (lower nm)"

text \<open>
  The selection part of \<open>main\<close> (after the release has been fetched and \<open>--list-assets\<close>
  handled). \<open>args_platform\<close> is the value of \<open>--platform\<close>; \<open>choice\<close> is the value of
  \<open>int(input(...))\<close>, with \<open>None\<close> for the \<open>ValueError\<close> of a response that is not an
  integer. The prompt is read at most once. The result is either the ending of the run or
  the selected asset with which \<open>main\<close> goes on, and the lines printed; a line of the
  numbered listing is kept as its number and the asset name.
\<close>

definition py_index :: "'a list \<Rightarrow> int \<Rightarrow> 'a option" where
  "py_index xs i =
     (if 0 \<le> i \<and> i < int (length xs) then Some (xs ! nat i)
      else if - int (length xs) \<le> i \<and> i < 0 then Some (xs ! nat (int (length xs) + i))
      else None)"

text \<open>\<open>args.platform or get_platform_asset_pattern()\<close>.\<close>

definition platform_pattern_of :: "string option \<Rightarrow> string \<Rightarrow> string \<Rightarrow> string option" where
  "platform_pattern_of args_platform platform_system platform_machine =
     (if truthy args_platform then args_platform
      else fst (get_platform_asset_pattern platform_system platform_machine))"

datatype message = Line string | Numbered nat string

definition choose_without_pattern ::
  "asset list \<Rightarrow> int option \<Rightarrow> message list \<Rightarrow> (ending + asset) \<times> message list"
where
  "choose_without_pattern assets choice printed =
     (if length assets = 1 then (Inr (assets ! 0), printed)
      else
        let listing = Line ''Multiple assets available, please specify platform:'' #
                      map (\<lambda>(i, a). Numbered i (name a)) (enumerate 0 assets)
        in case choice of
             None \<Rightarrow> (Inl Return, printed @ listing @ [Line ''Invalid choice''])
           | Some i \<Rightarrow>
               (case py_index assets i of
                  None \<Rightarrow> (Inl Return, printed @ listing @ [Line ''Invalid choice''])
                | Some a \<Rightarrow> (Inr a, printed @ listing)))"

definition select_asset ::
  "asset list \<Rightarrow> string option \<Rightarrow> string \<Rightarrow> string \<Rightarrow> int option \<Rightarrow>
     (ending + asset) \<times> message list"
where
  "select_asset assets args_platform platform_system platform_machine choice =
     (if assets = [] then (Inl Return, [Line ''No assets found in this release''])
      else
        let (platform_pattern, warnings) =
              (if truthy args_platform then (args_platform, [])
               else get_platform_asset_pattern platform_system platform_machine);
            printed = map Line warnings
        in case platform_pattern of
             None \<Rightarrow> choose_without_pattern assets choice printed
           | Some p \<Rightarrow>
               if p = [] then choose_without_pattern assets choice printed
               else
                 (case find_asset_for_platform assets (Some p) of
                    None \<Rightarrow>
                      (Inl Return,
                       printed @
                       [Line (''No asset found for platform pattern: '' @ p),
                        Line ''Available assets:''] @
                       map (\<lambda>a. Line (''  - '' @ name a)) assets)
                  | Some a \<Rightarrow> (Inr a, printed)))"

text \<open>The exit status of a run that ends in the selection part; \<open>None\<close> when it goes on.\<close>

definition selection_exit_status :: "(ending + asset) \<times> message list \<Rightarrow> int option" where
  "selection_exit_status r = (case fst r of Inl e \<Rightarrow> Some (exit_status e) | Inr a \<Rightarrow> None)"

section \<open>Archive extractor\<close>

text \<open>
  \<open>extract_archive\<close> either hands the archive to \<open>zipfile\<close> or to \<open>tarfile\<close>, or raises
  before touching either. The value returned names the extraction that is run.
\<close>

datatype extraction = ZipExtractAll path path | TarGzExtractAll path path

definition extract_archive :: "path \<Rightarrow> path \<Rightarrow> error + extraction" where
  "extract_archive archive_path extract_to =
     (if lower (path_suffix (path_name archive_path)) = ''.zip''
      then Inr (ZipExtractAll archive_path extract_to)
      else if endswith_any (path_name archive_path) [''.tar.gz'', ''.tgz'']
      then Inr (TarGzExtractAll archive_path extract_to)
      else Inl (Exception (''Unsupported archive format: '' @ path_suffix (path_name archive_path))))"

section \<open>Directory trees\<close>

text \<open>
  A file carries its mode (\<open>st_mode\<close>, a Python integer), its bytes, and whether it can be
  opened for reading. A directory carries its mode and its entries in the order in which
  the operating system lists them.
\<close>

datatype node =
    File (st_mode: int) (content: "8 word list") (readable: bool)
  | Dir (st_mode: int) (entries: "(string \<times> node) list")





section \<open>Binary discovery\<close>








section \<open>Permission normalization\<close>
















section \<open>Path configurator\<close>










section \<open>The file system and the installation builder\<close>




primrec modify_at :: "path \<Rightarrow> (node \<Rightarrow> node) \<Rightarrow> node \<Rightarrow> node" where
  "modify_at [] f n = f n"
| "modify_at (c # p) f n =
     (case n of
        File m bs r \<Rightarrow> n
      | Dir m es \<Rightarrow> Dir m (AList.map_entry c (modify_at p f) es))"







section \<open>Auxiliary notions for the statements\<close>



section \<open>Properties of the platform resolver\<close>









section \<open>Properties of the asset selector\<close>

lemma first_asset_containing_None:
  "first_asset_containing p assets = None \<longleftrightarrow>
     (\<forall>a \<in> set assets. \<not> str_in p (lower (name a)))"
  by (induction assets) auto

lemma first_asset_containing_Some:
  "first_asset_containing p assets = Some a \<Longrightarrow>
     \<exists>before after. assets = before @ a # after \<and> str_in p (lower (name a)) \<and>
        (\<forall>b \<in> set before. \<not> str_in p (lower (name b)))"
proof (induction assets)
  case Nil
  then show ?case by simp
next
  case (Cons x xs)
  show ?case
  proof (cases "str_in p (lower (name x))")
    case True
    with Cons.prems have "x = a" by simp
    with True have "x # xs = [] @ a # xs \<and> str_in p (lower (name a)) \<and>
        (\<forall>b \<in> set []. \<not> str_in p (lower (name b)))" by simp
    then show ?thesis by blast
  next
    case False
    with Cons.prems have "first_asset_containing p xs = Some a" by simp
    from Cons.IH [OF this] obtain before after where h: "xs = before @ a # after"
      "str_in p (lower (name a))" "\<forall>b \<in> set before. \<not> str_in p (lower (name b))" by blast
    with False have "x # xs = (x # before) @ a # after \<and> str_in p (lower (name a)) \<and>
        (\<forall>b \<in> set (x # before). \<not> str_in p (lower (name b)))" by simp
    then show ?thesis by blast
  qed
qed

lemma lowercase_tag_selects_first_match:
  assumes "tag \<noteq> []" "lower tag = tag"
  shows "find_asset_for_platform assets (Some tag) = None \<longleftrightarrow>
           (\<forall>a \<in> set assets. \<not> contains_ignoring_case tag (name a))"
    and "find_asset_for_platform assets (Some tag) = Some a \<Longrightarrow>
           \<exists>before after. assets = before @ a # after \<and>
              contains_ignoring_case tag (name a) \<and>
              (\<forall>b \<in> set before. \<not> contains_ignoring_case tag (name b))"
proof -
  have eq: "contains_ignoring_case tag nm = str_in tag (lower nm)" for nm
    using assms(2) by (simp add: contains_ignoring_case_def)
  from assms(1) have f: "find_asset_for_platform assets (Some tag) = first_asset_containing tag assets"
    by (simp add: find_asset_for_platform_def)
  show "find_asset_for_platform assets (Some tag) = None \<longleftrightarrow>
          (\<forall>a \<in> set assets. \<not> contains_ignoring_case tag (name a))"
    unfolding f eq by (rule first_asset_containing_None)
  show "find_asset_for_platform assets (Some tag) = Some a \<Longrightarrow>
          \<exists>before after. assets = before @ a # after \<and>
             contains_ignoring_case tag (name a) \<and>
             (\<forall>b \<in> set before. \<not> contains_ignoring_case tag (name b))"
    unfolding f eq by (rule first_asset_containing_Some)
qed

text \<open>
  Claim C9. With no tag, or with the empty string as tag, the tag-matching path returns no
  asset, whatever the asset list: the empty string is not treated as a substring of every
  name.
\<close>

theorem empty_tag_selects_nothing:
  "find_asset_for_platform assets None = None \<and> find_asset_for_platform assets (Some []) = None"
  by (simp add: find_asset_for_platform_def)

text \<open>
  Claim C3. Selection returns the first asset whose name contains the tag without regard to
  letter case. The code lower-cases the asset name but compares it with the tag as passed
  in, so a tag given with a capital letter (through \<open>--platform\<close>) matches no asset: for
  the one-asset list below and the tag \<open>X86-Linux\<close> the name contains the tag up to case,
  and the code selects nothing.
\<close>

theorem uppercase_tag_never_matches:
  "contains_ignoring_case ''X86-Linux'' ''verus-x86-linux.zip''
   \<and> find_asset_for_platform
        [\<lparr>name = ''verus-x86-linux.zip'', size = 1, browser_download_url = ''u''\<rparr>]
        (Some ''X86-Linux'') = None"
  by code_simp

section \<open>Properties of the archive extractor\<close>

lemma rfind_last_occurrence:
  "c \<notin> set after \<Longrightarrow> rfind (before @ c # after) c = int (length before)"
proof -
  assume h: "c \<notin> set after"
  have "takeWhile (\<lambda>x. x \<noteq> c) (rev after @ c # rev before) = rev after"
    using h by (subst takeWhile_append2) auto
  then show ?thesis by (simp add: rfind_def)
qed

lemma of_char_lower_char:
  "(of_char (lower_char c) :: nat) =
     (if 65 \<le> (of_char c :: nat) \<and> (of_char c :: nat) \<le> 90 then of_char c + 32 else of_char c)"
  by (simp add: lower_char_def)

lemma lower_char_eq_dot: "lower_char c = CHR ''.'' \<longleftrightarrow> c = CHR ''.''"
proof
  assume "lower_char c = CHR ''.''"
  then have "(of_char (lower_char c) :: nat) = of_char (CHR ''.'')" by simp
  then have "(of_char c :: nat) = of_char (CHR ''.'')"
    by (simp add: of_char_lower_char split: if_splits)
  then show "c = CHR ''.''" by (simp only: of_char_eq_iff)
next
  assume "c = CHR ''.''"
  then show "lower_char c = CHR ''.''" by (simp add: lower_char_def)
qed

lemma lower_char_Z: "lower_char (CHR ''Z'') = CHR ''z''"
  by code_simp

lemma path_suffix_stem_ext:
  assumes "stem \<noteq> []" "ext \<noteq> []" "CHR ''.'' \<notin> set ext"
  shows "path_suffix (stem @ CHR ''.'' # ext) = CHR ''.'' # ext"
  using assms by (simp add: path_suffix_def rfind_last_occurrence Let_def)

lemma path_suffix_is_drop:
  "path_suffix nm \<noteq> [] \<Longrightarrow> \<exists>i. i < length nm \<and> path_suffix nm = drop i nm"
  by (auto simp: path_suffix_def Let_def split: if_splits
           intro!: exI[of _ "nat (rfind nm (CHR ''.''))"])

lemma lower_zip_ext:
  assumes "lower ext = ''.zip''"
  shows "\<exists>e. ext = CHR ''.'' # e \<and> e \<noteq> [] \<and> CHR ''.'' \<notin> set e"
proof -
  from assms obtain a b c d where e: "ext = [a, b, c, d]"
    and l: "lower_char a = CHR ''.''" "lower_char b = CHR ''z''"
           "lower_char c = CHR ''i''" "lower_char d = CHR ''p''"
    by (auto simp: lower_def map_eq_Cons_conv)
  from l(1) have "a = CHR ''.''" by (simp add: lower_char_eq_dot)
  moreover have "b \<noteq> CHR ''.''" "c \<noteq> CHR ''.''" "d \<noteq> CHR ''.''"
    using l by (auto simp: lower_char_def)
  ultimately show ?thesis using e by auto
qed

lemma is_zip_endswith:
  assumes "lower (path_suffix nm) = ''.zip''"
  shows "endswith (lower nm) ''.zip''"
proof -
  from assms have "path_suffix nm \<noteq> []" by (auto simp: lower_def)
  then obtain i where "path_suffix nm = drop i nm" using path_suffix_is_drop by blast
  with assms have "drop i (lower nm) = ''.zip''" by (simp add: lower_def drop_map)
  then have "suffix ''.zip'' (lower nm)" by (metis suffix_drop)
  then show ?thesis by (simp add: endswith_def)
qed

lemma endswith_last:
  "endswith s p \<Longrightarrow> p \<noteq> [] \<Longrightarrow> s \<noteq> [] \<and> last s = last p"
  by (auto simp: endswith_def suffix_def)

lemma lower_nonempty_last:
  "s \<noteq> [] \<Longrightarrow> last (lower s) = lower_char (last s)"
  by (simp add: lower_def last_map)

lemma is_zip_last:
  assumes "lower (path_suffix nm) = ''.zip''"
  shows "nm \<noteq> [] \<and> lower_char (last nm) = CHR ''p''"
proof -
  from is_zip_endswith [OF assms] have "lower nm \<noteq> [] \<and> last (lower nm) = last ''.zip''"
    by (intro endswith_last) simp_all
  then have "nm \<noteq> []" "last (lower nm) = CHR ''p''" by (auto simp: lower_def)
  then show ?thesis by (simp add: lower_nonempty_last)
qed

lemma zip_route:
  assumes "stem \<noteq> []" "lower ext = ''.zip''"
  shows "extract_archive (dir @ [stem @ ext]) dst = Inr (ZipExtractAll (dir @ [stem @ ext]) dst)"
proof -
  from lower_zip_ext [OF assms(2)] obtain e
    where e: "ext = CHR ''.'' # e" "e \<noteq> []" "CHR ''.'' \<notin> set e"
    by blast
  with assms(1) have "path_suffix (stem @ ext) = ext" by (simp add: path_suffix_stem_ext)
  with assms(2) show ?thesis by (simp add: extract_archive_def path_name_def)
qed

lemma tar_route:
  assumes "endswith_any (path_name p) [''.tar.gz'', ''.tgz'']"
  shows "extract_archive p dst = Inr (TarGzExtractAll p dst)"
proof -
  from assms have "path_name p \<noteq> [] \<and> last (path_name p) = CHR ''z''"
    by (auto simp: endswith_any_def dest: endswith_last)
  then have "lower_char (last (path_name p)) \<noteq> CHR ''p''" by (simp add: lower_char_def)
  then have "lower (path_suffix (path_name p)) \<noteq> ''.zip''" using is_zip_last by blast
  with assms show ?thesis by (simp add: extract_archive_def)
qed

lemma upper_tar_rejected:
  assumes "endswith_any (path_name p) [''.TAR.GZ'', ''.TGZ'']"
  shows "extract_archive p dst =
           Inl (Exception (''Unsupported archive format: '' @ path_suffix (path_name p)))"
proof -
  from assms have l: "path_name p \<noteq> [] \<and> last (path_name p) = CHR ''Z''"
    by (auto simp: endswith_any_def dest: endswith_last)
  then have "lower_char (last (path_name p)) \<noteq> CHR ''p''" by (simp add: lower_char_Z)
  then have z: "lower (path_suffix (path_name p)) \<noteq> ''.zip''" using is_zip_last by blast
  have "\<not> endswith_any (path_name p) [''.tar.gz'', ''.tgz'']"
  proof
    assume "endswith_any (path_name p) [''.tar.gz'', ''.tgz'']"
    then have "last (path_name p) = CHR ''z''"
      by (auto simp: endswith_any_def dest: endswith_last)
    with l show False by simp
  qed
  with z show ?thesis by (simp add: extract_archive_def)
qed

lemma other_rejected:
  assumes "\<not> endswith (lower (path_name p)) ''.zip''"
      and "\<not> endswith_any (path_name p) [''.tar.gz'', ''.tgz'']"
  shows "extract_archive p dst =
           Inl (Exception (''Unsupported archive format: '' @ path_suffix (path_name p)))"
  using assms is_zip_endswith by (auto simp: extract_archive_def)

text \<open>
  Claim C6, as stated: every path ending in \<open>.zip\<close> routes to zip extraction. The path
  \<open>out/.zip\<close> ends in \<open>.zip\<close>, but a name that only starts with a dot has no suffix, so
  the archive is rejected as an unsupported format.
\<close>

theorem dot_zip_is_rejected:
  "endswith (path_name [''out'', ''.zip'']) ''.zip''
   \<and> extract_archive [''out'', ''.zip''] [''out'', ''temp_extract'']
       = Inl (Exception ''Unsupported archive format: '')"
  by code_simp

text \<open>
  Claim C6, amended. The dispatch looks at the last component of the path only. A name made
  of a non-empty stem followed by \<open>.zip\<close> routes to zip extraction; a name ending in
  \<open>.tar.gz\<close> or \<open>.tgz\<close> routes to gzip-tar extraction; a name that ends in neither of
  the two, and not in \<open>.zip\<close> in any letter case, raises the unsupported-format
  exception, and then no extraction is run.
\<close>

theorem archive_dispatch_by_suffix:
  "(stem \<noteq> [] \<longrightarrow>
      extract_archive (dir @ [stem @ ''.zip'']) dst
        = Inr (ZipExtractAll (dir @ [stem @ ''.zip'']) dst))
   \<and> (endswith_any (path_name p) [''.tar.gz'', ''.tgz''] \<longrightarrow>
        extract_archive p dst = Inr (TarGzExtractAll p dst))
   \<and> (\<not> endswith (lower (path_name p)) ''.zip'' \<and>
       \<not> endswith_any (path_name p) [''.tar.gz'', ''.tgz''] \<longrightarrow>
        extract_archive p dst =
          Inl (Exception (''Unsupported archive format: '' @ path_suffix (path_name p))))"
proof -
  have "lower ''.zip'' = ''.zip''" by code_simp
  then show ?thesis using zip_route tar_route other_rejected by blast
qed

theorem archive_dispatch_by_suffix_witness:
  "''foo'' \<noteq> []
   \<and> extract_archive ([''out''] @ [''foo'' @ ''.zip'']) [''t'']
       = Inr (ZipExtractAll ([''out''] @ [''foo'' @ ''.zip'']) [''t''])
   \<and> endswith_any (path_name [''out'', ''foo.tar.gz'']) [''.tar.gz'', ''.tgz'']
   \<and> extract_archive [''out'', ''foo.tar.gz''] [''t'']
       = Inr (TarGzExtractAll [''out'', ''foo.tar.gz''] [''t''])
   \<and> \<not> endswith (lower (path_name [''out'', ''foo.rar''])) ''.zip''
   \<and> \<not> endswith_any (path_name [''out'', ''foo.rar'']) [''.tar.gz'', ''.tgz'']
   \<and> extract_archive [''out'', ''foo.rar''] [''t'']
       = Inl (Exception ''Unsupported archive format: .rar'')"
proof -
  have a: "''foo'' \<noteq> []" by simp
  have b: "endswith_any (path_name [''out'', ''foo.tar.gz'']) [''.tar.gz'', ''.tgz'']"
    by code_simp
  have c: "\<not> endswith (lower (path_name [''out'', ''foo.rar''])) ''.zip''"
    by code_simp
  have d: "\<not> endswith_any (path_name [''out'', ''foo.rar'']) [''.tar.gz'', ''.tgz'']"
    by code_simp
  have e: "path_suffix (path_name [''out'', ''foo.rar'']) = ''.rar''"
    by code_simp
  note t1 = archive_dispatch_by_suffix
    [of "''foo''" "[''out'']" "[''t'']" "[''out'', ''foo.tar.gz'']"]
  note t2 = archive_dispatch_by_suffix
    [of "''foo''" "[''out'']" "[''t'']" "[''out'', ''foo.rar'']"]
  from t1 a have r1: "extract_archive ([''out''] @ [''foo'' @ ''.zip'']) [''t'']
       = Inr (ZipExtractAll ([''out''] @ [''foo'' @ ''.zip'']) [''t''])" by blast
  from t1 b have r2: "extract_archive [''out'', ''foo.tar.gz''] [''t'']
       = Inr (TarGzExtractAll [''out'', ''foo.tar.gz''] [''t''])" by blast
  from t2 c d have "extract_archive [''out'', ''foo.rar''] [''t'']
       = Inl (Exception (''Unsupported archive format: '' @
                         path_suffix (path_name [''out'', ''foo.rar''])))" by blast
  then have r3: "extract_archive [''out'', ''foo.rar''] [''t'']
       = Inl (Exception ''Unsupported archive format: .rar'')" by (simp add: e)
  from a r1 b r2 c d r3 show ?thesis by blast
qed

text \<open>
  Claim C10, as stated: a file whose name ends in \<open>.ZIP\<close> routes to zip extraction. The
  name \<open>.ZIP\<close> itself ends in \<open>.ZIP\<close> and has no suffix, so it is rejected.
\<close>

theorem dot_upper_zip_is_rejected:
  "endswith (path_name [''out'', ''.ZIP'']) ''.ZIP''
   \<and> extract_archive [''out'', ''.ZIP''] [''out'', ''temp_extract'']
       = Inl (Exception ''Unsupported archive format: '')"
  by code_simp

text \<open>
  Claim C10, amended. The zip test ignores letter case and the tar test does not: a name
  made of a non-empty stem followed by the zip suffix in any letter casing routes to zip
  extraction, while a name ending in \<open>.TAR.GZ\<close> or \<open>.TGZ\<close> is rejected as an
  unsupported format.
\<close>

theorem zip_case_insensitive_tar_case_sensitive:
  "(stem \<noteq> [] \<and> lower ext = ''.zip'' \<longrightarrow>
      extract_archive (dir @ [stem @ ext]) dst = Inr (ZipExtractAll (dir @ [stem @ ext]) dst))
   \<and> (endswith_any (path_name p) [''.TAR.GZ'', ''.TGZ''] \<longrightarrow>
        extract_archive p dst =
          Inl (Exception (''Unsupported archive format: '' @ path_suffix (path_name p))))"
  using zip_route upper_tar_rejected by blast

theorem zip_case_insensitive_tar_case_sensitive_witness:
  "''foo'' \<noteq> [] \<and> lower ''.ZiP'' = ''.zip''
   \<and> extract_archive ([''out''] @ [''foo'' @ ''.ZiP'']) [''t'']
       = Inr (ZipExtractAll ([''out''] @ [''foo'' @ ''.ZiP'']) [''t''])
   \<and> endswith_any (path_name [''out'', ''foo.TAR.GZ'']) [''.TAR.GZ'', ''.TGZ'']
   \<and> extract_archive [''out'', ''foo.TAR.GZ''] [''t'']
       = Inl (Exception ''Unsupported archive format: .GZ'')"
proof -
  have a: "''foo'' \<noteq> [] \<and> lower ''.ZiP'' = ''.zip''" by code_simp
  have b: "endswith_any (path_name [''out'', ''foo.TAR.GZ'']) [''.TAR.GZ'', ''.TGZ'']"
    by code_simp
  have e: "path_suffix (path_name [''out'', ''foo.TAR.GZ'']) = ''.GZ''"
    by code_simp
  note t = zip_case_insensitive_tar_case_sensitive
    [of "''foo''" "''.ZiP''" "[''out'']" "[''t'']" "[''out'', ''foo.TAR.GZ'']"]
  from t a have r1: "extract_archive ([''out''] @ [''foo'' @ ''.ZiP'']) [''t'']
       = Inr (ZipExtractAll ([''out''] @ [''foo'' @ ''.ZiP'']) [''t''])" by blast
  from t b have "extract_archive [''out'', ''foo.TAR.GZ''] [''t'']
       = Inl (Exception (''Unsupported archive format: '' @
                         path_suffix (path_name [''out'', ''foo.TAR.GZ''])))" by blast
  then have r2: "extract_archive [''out'', ''foo.TAR.GZ''] [''t'']
       = Inl (Exception ''Unsupported archive format: .GZ'')" by (simp add: e)
  from a r1 b r2 show ?thesis by blast
qed

section \<open>Properties of the selection part of main\<close>

lemma py_index_None:
  "py_index xs i = None \<longleftrightarrow> i < - int (length xs) \<or> int (length xs) \<le> i"
  by (auto simp: py_index_def Let_def)

lemma choose_without_pattern_invalid:
  assumes "length assets \<noteq> 1"
      and "choice = None \<or> (\<exists>i. choice = Some i \<and> py_index assets i = None)"
  shows "fst (choose_without_pattern assets choice printed) = Inl Return"
  using assms by (auto simp: choose_without_pattern_def Let_def)

lemma select_asset_no_assets:
  "fst (select_asset [] ap sys mach choice) = Inl Return"
  by (simp add: select_asset_def)

lemma select_asset_no_match:
  assumes "assets \<noteq> []" "truthy (platform_pattern_of ap sys mach)"
      and "find_asset_for_platform assets (platform_pattern_of ap sys mach) = None"
  shows "fst (select_asset assets ap sys mach choice) = Inl Return"
  using assms
  by (auto simp: select_asset_def platform_pattern_of_def truthy_def Let_def
           split: prod.splits option.splits if_splits)

lemma select_asset_invalid_choice:
  assumes "assets \<noteq> []" "\<not> truthy (platform_pattern_of ap sys mach)" "length assets \<noteq> 1"
      and "choice = None \<or> (\<exists>i. choice = Some i \<and> py_index assets i = None)"
  shows "fst (select_asset assets ap sys mach choice) = Inl Return"
proof -
  from assms(3,4) have "\<And>printed. fst (choose_without_pattern assets choice printed) = Inl Return"
    by (rule choose_without_pattern_invalid)
  with assms(1,2) show ?thesis
    by (auto simp: select_asset_def platform_pattern_of_def truthy_def Let_def
             split: prod.splits option.splits if_splits)
qed

lemma returned_exits_zero:
  "fst r = Inl Return \<Longrightarrow> selection_exit_status r = Some 0"
  by (simp add: selection_exit_status_def)

text \<open>
  Claim C7, as stated: an invalid interactive choice ends the run with a non-zero status.
  With two assets, no usable tag, and the response \<open>5\<close> (out of range) or a response that
  is not an integer, \<open>main\<close> prints \<open>Invalid choice\<close> and returns: the status is 0.
\<close>

theorem invalid_choice_exits_zero:
  "selection_exit_status
     (select_asset
        [\<lparr>name = ''verus-a.zip'', size = 1, browser_download_url = ''u1''\<rparr>,
         \<lparr>name = ''verus-b.zip'', size = 2, browser_download_url = ''u2''\<rparr>]
        None ''FreeBSD'' ''riscv64'' (Some 5)) = Some 0
   \<and> selection_exit_status
     (select_asset
        [\<lparr>name = ''verus-a.zip'', size = 1, browser_download_url = ''u1''\<rparr>,
         \<lparr>name = ''verus-b.zip'', size = 2, browser_download_url = ''u2''\<rparr>]
        None ''FreeBSD'' ''riscv64'' None) = Some 0"
  by code_simp

text \<open>
  Claim C7, amended. The three reported early returns end the run alike: when there are no
  assets, when no asset matches the tag in use, and when the interactive choice is not an
  integer or is out of range, \<open>main\<close> returns at once, so the process exits with status 0,
  no asset is selected (nothing is downloaded or installed), and the prompt is not repeated.
\<close>

theorem selection_failures_return_with_status_zero:
  "(assets = [] \<longrightarrow>
      fst (select_asset assets ap sys mach choice) = Inl Return \<and>
      selection_exit_status (select_asset assets ap sys mach choice) = Some 0)
   \<and> (assets \<noteq> [] \<and> truthy (platform_pattern_of ap sys mach) \<and>
       find_asset_for_platform assets (platform_pattern_of ap sys mach) = None \<longrightarrow>
      fst (select_asset assets ap sys mach choice) = Inl Return \<and>
      selection_exit_status (select_asset assets ap sys mach choice) = Some 0)
   \<and> (assets \<noteq> [] \<and> \<not> truthy (platform_pattern_of ap sys mach) \<and> length assets \<noteq> 1 \<and>
       (choice = None \<or>
        (\<exists>i. choice = Some i \<and> (i < - int (length assets) \<or> int (length assets) \<le> i))) \<longrightarrow>
      fst (select_asset assets ap sys mach choice) = Inl Return \<and>
      selection_exit_status (select_asset assets ap sys mach choice) = Some 0)"
  using select_asset_no_assets select_asset_no_match select_asset_invalid_choice
    returned_exits_zero py_index_None
  by (metis (no_types, lifting))

theorem selection_failures_return_with_status_zero_witness:
  "selection_exit_status (select_asset [] None ''Linux'' ''x86_64'' None) = Some 0
   \<and> selection_exit_status
       (select_asset [\<lparr>name = ''verus-x86-linux.zip'', size = 1, browser_download_url = ''u''\<rparr>]
          (Some ''bogus-tag'') ''Linux'' ''x86_64'' None) = Some 0
   \<and> selection_exit_status
       (select_asset
          [\<lparr>name = ''verus-a.zip'', size = 1, browser_download_url = ''u1''\<rparr>,
           \<lparr>name = ''verus-b.zip'', size = 2, browser_download_url = ''u2''\<rparr>]
          None ''FreeBSD'' ''riscv64'' (Some (- 3))) = Some 0"
proof -
  let ?one = "[\<lparr>name = ''verus-x86-linux.zip'', size = 1, browser_download_url = ''u''\<rparr>]"
  let ?two = "[\<lparr>name = ''verus-a.zip'', size = 1, browser_download_url = ''u1''\<rparr>,
               \<lparr>name = ''verus-b.zip'', size = 2, browser_download_url = ''u2''\<rparr>]"
  have h2: "?one \<noteq> [] \<and> truthy (platform_pattern_of (Some ''bogus-tag'') ''Linux'' ''x86_64'') \<and>
            find_asset_for_platform ?one
              (platform_pattern_of (Some ''bogus-tag'') ''Linux'' ''x86_64'') = None"
    by code_simp
  have h3: "?two \<noteq> [] \<and> \<not> truthy (platform_pattern_of None ''FreeBSD'' ''riscv64'') \<and>
            length ?two \<noteq> 1 \<and>
            (Some (- 3) = (None :: int option) \<or>
             (\<exists>i. Some (- 3) = Some i \<and> (i < - int (length ?two) \<or> int (length ?two) \<le> i)))"
  proof -
    have "\<not> truthy (platform_pattern_of None ''FreeBSD'' ''riscv64'')" by code_simp
    then show ?thesis by simp
  qed
  from selection_failures_return_with_status_zero
         [of "[]" None "''Linux''" "''x86_64''" None]
  have r1: "selection_exit_status (select_asset [] None ''Linux'' ''x86_64'' None) = Some 0"
    by blast
  from selection_failures_return_with_status_zero
         [of ?one "Some ''bogus-tag''" "''Linux''" "''x86_64''" None] h2
  have r2: "selection_exit_status
              (select_asset ?one (Some ''bogus-tag'') ''Linux'' ''x86_64'' None) = Some 0"
    by blast
  from selection_failures_return_with_status_zero
         [of ?two None "''FreeBSD''" "''riscv64''" "Some (- 3)"] h3
  have r3: "selection_exit_status
              (select_asset ?two None ''FreeBSD'' ''riscv64'' (Some (- 3))) = Some 0"
    by blast
  from r1 r2 r3 show ?thesis by blast
qed

section \<open>Properties of the path configurator\<close>









section \<open>Properties of binary discovery\<close>

















section \<open>Properties of permission normalization\<close>

















section \<open>Properties of the file system operations\<close>











section \<open>Properties of the installation builder\<close>








lemma modify_at_Dir:
  "\<exists>es'. modify_at [c] f (Dir m es) = Dir m es'"
  by simp






end
